theory Spec2Isabelle
  imports Complex_Main "HOL-Library.Word" "HOL-Library.Log_Nat"
begin

section \<open>Python values, exceptions and results\<close>

text \<open>
  A shallow embedding of \<^verbatim>\<open>custom_components/ember_mug/mug.py\<close> (class \<^verbatim>\<open>EmberMug\<close>) and of
  \<^verbatim>\<open>set_target_temp\<close> in \<^verbatim>\<open>services.py\<close>.

  Bytes of a \<^verbatim>\<open>bytearray\<close> are 8-bit words; Python integers are \<open>int\<close>.
  \<open>exn\<close> ranges over the subclasses of Python's \<^verbatim>\<open>Exception\<close> that the code can meet:
  \<open>BleakError\<close> is the transport error of the BLE library, \<open>ValueError\<close> is raised by a
  tuple unpacking of the wrong length, \<open>IndexError\<close> by an index out of range,
  \<open>OverflowError\<close> by \<^verbatim>\<open>int.to_bytes\<close>, and \<open>OtherException\<close> stands for every other
  subclass of \<^verbatim>\<open>Exception\<close>.

  The model is sequential: one coroutine runs from its call to its return. What other
  tasks do while it is suspended (a notification, \<^verbatim>\<open>disconnect\<close>, a cancellation, which
  is not an \<^verbatim>\<open>Exception\<close>) is not interleaved, and the interpreter's recursion limit is not
  modelled.
\<close>

type_synonym byte = "8 word"

datatype exn = BleakError | ValueError | IndexError | OverflowError | OtherException

text \<open>
  The result of running a coroutine: it returned a value, it raised, or it has not
  returned within the fuel given to the model (\<open>Pending\<close>).
\<close>

datatype 'a res = Ret 'a | Exn exn | Pending

datatype uuid =
  BATTERY_UUID | CURRENT_TEMP_UUID | LED_COLOUR_UUID | STATE_UUID | TARGET_TEMP_UUID

datatype level = Debug | Info | Warning | Error

text \<open>One constructor for each logging statement of the source.\<close>

datatype msg =
  Starting_mug_loop
  | Unexpected_error_restarting exn
  | Battery_is_at
  | Target_temp_is
  | Current_temp_is
  | Connected_to
  | Init_error_on_attempt exn nat
  | Failed_to_connect_after_10_tries
  | Try_to_subscribe
  | Failed_to_subscribe
  | Unexpected_error_notify exn
  | State_changed "int option" int
  | Error_str exn
  | Set_to
  | Write_response

text \<open>
  What the object does to the outside, in the order it does it: calls on the BLE client, the
  observer callback, log records, awaited sleeps (in seconds), the sleep coroutine that
  \<^verbatim>\<open>connect\<close> creates and never awaits, and the tasks handed to the host.
\<close>

datatype event =
  Call_is_connected
  | Call_connect
  | Call_pair
  | Call_disconnect
  | Call_read_gatt_char uuid
  | Call_write_gatt_char uuid "byte list" bool
  | Call_start_notify uuid
  | Call_stop_notify uuid
  | Update_callback
  | Log level msg
  | Await_sleep nat
  | Sleep_not_awaited nat
  | Create_task_async_run

section \<open>Floats\<close>

text \<open>
  A Python \<^verbatim>\<open>float\<close> is an IEEE 754 binary64 value: a finite one is the rational number
  it denotes, \<open>Infinity\<close> is either infinity and \<open>NaN\<close> is not-a-number (the sign of a zero
  or of an infinity plays no part in this code). Every arithmetic operation computes the
  exact result and rounds it to the nearest binary64 value, ties to even (\<open>rd\<close>).
\<close>

datatype pyfloat = Finite rat | Infinity | NaN

definition pow2 :: "int \<Rightarrow> rat" where
  "pow2 e = (if 0 \<le> e then 2 ^ nat e else 1 / 2 ^ nat (- e))"

definition round_half_even :: "rat \<Rightarrow> int" where
  "round_half_even y =
     (let f = \<lfloor>y\<rfloor>; d = y - of_int f
      in if d < 1 / 2 then f else if 1 / 2 < d then f + 1 else if even f then f else f + 1)"

text \<open>For \<open>0 < x\<close>: the \<open>e\<close> with \<open>2 ^ e \<le> x < 2 ^ (e + 1)\<close>.\<close>

definition exponent :: "rat \<Rightarrow> int" where
  "exponent x =
     (case quotient_of x of (a, b) \<Rightarrow>
        (let e = bitlen a - bitlen b in if pow2 e \<le> x then e else e - 1))"

text \<open>
  Rounding to binary64: 53 significant bits, the least exponent is \<open>-1022\<close> (below it the
  spacing stays \<open>2 ^ -1074\<close>), and a result of magnitude \<open>2 ^ 1024\<close> or more is an infinity.
\<close>

definition rd :: "rat \<Rightarrow> pyfloat" where
  "rd x =
     (if x = 0 then Finite 0
      else
        (let u = pow2 (max (exponent \<bar>x\<bar>) (- 1022) - 52);
             r = of_int (round_half_even (x / u)) * u
         in if r \<noteq> 0 \<and> 1024 \<le> exponent \<bar>r\<bar> then Infinity else Finite r))"

text \<open>
  An operation whose other operands are finite positive constants (\<^verbatim>\<open>x * 0.01\<close>,
  \<^verbatim>\<open>x * 9\<close>, \<^verbatim>\<open>x / 5\<close>, \<^verbatim>\<open>x + 32\<close>, \<^verbatim>\<open>x / 0.01\<close>): an infinity stays one, and so does
  a NaN.
\<close>

definition fl :: "(rat \<Rightarrow> rat) \<Rightarrow> pyfloat \<Rightarrow> pyfloat" where
  "fl f x = (case x of Finite q \<Rightarrow> rd (f q) | Infinity \<Rightarrow> Infinity | NaN \<Rightarrow> NaN)"

text \<open>The literal \<^verbatim>\<open>0.01\<close>: the binary64 value nearest to 1/100.\<close>

definition float_0_01 :: rat where
  "float_0_01 = 5764607523034235 / 576460752303423488"

text \<open>
  \<^verbatim>\<open>round(x, 2)\<close>: the exact value of \<open>x\<close> is rounded to two decimals, ties to even, and
  the decimal is converted back to the nearest float.
\<close>

definition py_round_2 :: "pyfloat \<Rightarrow> pyfloat" where
  "py_round_2 x = fl (\<lambda>q. of_int (round_half_even (q * 100)) / 100) x"

text \<open>\<^verbatim>\<open>float(n)\<close> of an integer: OverflowError when \<open>n\<close> is too large.\<close>

definition py_float :: "int \<Rightarrow> exn + pyfloat" where
  "py_float n = (case rd (of_int n) of Finite q \<Rightarrow> Inr (Finite q) | _ \<Rightarrow> Inl OverflowError)"

text \<open>
  \<^verbatim>\<open>int(x)\<close> of a float truncates towards zero; an infinity raises OverflowError and a NaN
  raises ValueError.
\<close>

definition py_int :: "pyfloat \<Rightarrow> exn + int" where
  "py_int x =
     (case x of
        Finite q \<Rightarrow> Inr (if q < 0 then - \<lfloor>- q\<rfloor> else \<lfloor>q\<rfloor>)
      | Infinity \<Rightarrow> Inl OverflowError
      | NaN \<Rightarrow> Inl ValueError)"

text \<open>\<^verbatim>\<open>int.from_bytes(bs, byteorder="little", signed=False)\<close>\<close>

definition from_bytes_little :: "byte list \<Rightarrow> int" where
  "from_bytes_little bs = foldr (\<lambda>b acc. uint b + 256 * acc) bs 0"

text \<open>\<^verbatim>\<open>n.to_bytes(2, "little")\<close>: OverflowError for a negative \<open>n\<close> and for \<open>2 ^ 16 \<le> n\<close>.\<close>

definition to_bytes_2_little :: "int \<Rightarrow> exn + byte list" where
  "to_bytes_2_little n =
     (if n < 0 \<or> 65536 \<le> n then Inl OverflowError
      else Inr [word_of_int (n mod 256), word_of_int (n div 256)])"

section \<open>Device state\<close>

text \<open>
  The attributes of \<^verbatim>\<open>EmberMug\<close>. \<open>loop\<close> is the attribute \<^verbatim>\<open>_loop\<close>; \<^verbatim>\<open>None\<close> is \<open>None\<close>.
  The attributes \<^verbatim>\<open>hass\<close>, \<^verbatim>\<open>client\<close> and \<^verbatim>\<open>async_update_callback\<close> are the outside
  world (\<open>env\<close> below); \<^verbatim>\<open>uuid_debug\<close> is only used by \<^verbatim>\<open>update_uuid_debug\<close>, which nothing
  calls.
\<close>

record mug =
  loop :: bool
  mac_address :: string
  use_metric :: bool
  state :: "int option"
  charging :: bool
  led_colour_rgb :: "int list"
  current_temp :: "pyfloat option"
  target_temp :: "pyfloat option"
  battery :: "pyfloat option"
  available :: bool

text \<open>
  The BLE client and the observer callback are external. They are a record of operations
  over a state \<open>'c\<close> of the outside world; each operation returns or raises and moves the
  outside world on.
\<close>

record 'c env =
  client_is_connected :: "'c \<Rightarrow> (exn + bool) \<times> 'c"
  client_connect :: "'c \<Rightarrow> (exn + unit) \<times> 'c"
  client_pair :: "'c \<Rightarrow> (exn + unit) \<times> 'c"
  client_disconnect :: "'c \<Rightarrow> (exn + unit) \<times> 'c"
  client_read_gatt_char :: "uuid \<Rightarrow> 'c \<Rightarrow> (exn + byte list) \<times> 'c"
  client_write_gatt_char :: "uuid \<Rightarrow> byte list \<Rightarrow> bool \<Rightarrow> 'c \<Rightarrow> (exn + unit) \<times> 'c"
  client_start_notify :: "uuid \<Rightarrow> 'c \<Rightarrow> (exn + unit) \<times> 'c"
  client_stop_notify :: "uuid \<Rightarrow> 'c \<Rightarrow> (exn + unit) \<times> 'c"
  async_update_callback :: "'c \<Rightarrow> (exn + unit) \<times> 'c"

record 'c world =
  self :: mug
  ext :: 'c
  trace :: "event list"

type_synonym ('c, 'a) coro = "'c world \<Rightarrow> 'a res \<times> 'c world"

subsection \<open>Sequencing, try/except and effects\<close>

definition ret :: "'a \<Rightarrow> ('c, 'a) coro" where
  "ret a w = (Ret a, w)"

definition raise :: "exn \<Rightarrow> ('c, 'a) coro" where
  "raise e w = (Exn e, w)"

definition pending :: "('c, 'a) coro" where
  "pending w = (Pending, w)"

definition of_sum :: "exn + 'a \<Rightarrow> ('c, 'a) coro" where
  "of_sum x = (case x of Inl e \<Rightarrow> raise e | Inr a \<Rightarrow> ret a)"

definition andthen :: "('c, 'a) coro \<Rightarrow> ('a \<Rightarrow> ('c, 'b) coro) \<Rightarrow> ('c, 'b) coro" where
  "andthen m f w =
     (case m w of
        (Ret a, w') \<Rightarrow> f a w'
      | (Exn e, w') \<Rightarrow> (Exn e, w')
      | (Pending, w') \<Rightarrow> (Pending, w'))"

text \<open>\<^verbatim>\<open>try: m  except BleakError as e: h e\<close>\<close>

definition except_BleakError :: "('c, 'a) coro \<Rightarrow> (exn \<Rightarrow> ('c, 'a) coro) \<Rightarrow> ('c, 'a) coro" where
  "except_BleakError m h w =
     (case m w of
        (Exn e, w') \<Rightarrow> (if e = BleakError then h e w' else (Exn e, w'))
      | (Ret a, w') \<Rightarrow> (Ret a, w')
      | (Pending, w') \<Rightarrow> (Pending, w'))"

text \<open>\<^verbatim>\<open>try: m  except Exception as e: h e\<close>\<close>

definition except_Exception :: "('c, 'a) coro \<Rightarrow> (exn \<Rightarrow> ('c, 'a) coro) \<Rightarrow> ('c, 'a) coro" where
  "except_Exception m h w =
     (case m w of
        (Exn e, w') \<Rightarrow> h e w'
      | (Ret a, w') \<Rightarrow> (Ret a, w')
      | (Pending, w') \<Rightarrow> (Pending, w'))"

definition emit :: "event \<Rightarrow> ('c, unit) coro" where
  "emit ev w = (Ret (), w\<lparr>trace := trace w @ [ev]\<rparr>)"

definition logger :: "level \<Rightarrow> msg \<Rightarrow> ('c, unit) coro" where
  "logger l m = emit (Log l m)"

text \<open>A call of an external operation: the event is recorded and the outside answers.\<close>

definition ext_call :: "event \<Rightarrow> ('c \<Rightarrow> (exn + 'a) \<times> 'c) \<Rightarrow> ('c, 'a) coro" where
  "ext_call ev f w =
     (case f (ext w) of
        (Inl e, c') \<Rightarrow> (Exn e, w\<lparr>ext := c', trace := trace w @ [ev]\<rparr>)
      | (Inr a, c') \<Rightarrow> (Ret a, w\<lparr>ext := c', trace := trace w @ [ev]\<rparr>))"

definition modify :: "(mug \<Rightarrow> mug) \<Rightarrow> ('c, unit) coro" where
  "modify f w = (Ret (), w\<lparr>self := f (self w)\<rparr>)"

definition is_connected :: "'c env \<Rightarrow> ('c, bool) coro" where
  "is_connected env = ext_call Call_is_connected (client_is_connected env)"

definition read_gatt_char :: "'c env \<Rightarrow> uuid \<Rightarrow> ('c, byte list) coro" where
  "read_gatt_char env u = ext_call (Call_read_gatt_char u) (client_read_gatt_char env u)"

definition callback :: "'c env \<Rightarrow> ('c, unit) coro" where
  "callback env = ext_call Update_callback (async_update_callback env)"

section \<open>EmberMug\<close>

subsection \<open>Construction and the colour property\<close>

text \<open>
  \<^verbatim>\<open>__init__\<close>: the default attributes; the task it hands to the host
  (\<^verbatim>\<open>hass.async_create_task(self.async_run())\<close>) is the event of \<open>init_world\<close>.
\<close>

definition init :: "string \<Rightarrow> bool \<Rightarrow> mug" where
  "init mac metric =
     \<lparr> loop = False, mac_address = mac, use_metric = metric, state = None,
       charging = False, led_colour_rgb = [255, 255, 255], current_temp = None,
       target_temp = None, battery = None, available = False \<rparr>"

definition init_world :: "string \<Rightarrow> bool \<Rightarrow> 'c \<Rightarrow> 'c world" where
  "init_world mac metric c =
     \<lparr> self = init mac metric, ext = c, trace = [Create_task_async_run] \<rparr>"

definition hex_digit :: "nat \<Rightarrow> char" where
  "hex_digit d = ''0123456789abcdef'' ! d"

text \<open>The lowercase hexadecimal digits of a natural number, most significant first.\<close>

fun hex_digits :: "nat \<Rightarrow> string" where
  "hex_digits n = (if n < 16 then [hex_digit n] else hex_digits (n div 16) @ [hex_digit (n mod 16)])"

declare hex_digits.simps [simp del]

text \<open>The format \<^verbatim>\<open>{n:02x}\<close>: zero-padded to a width of two, the sign counted in.\<close>

definition format_02x :: "int \<Rightarrow> string" where
  "format_02x n =
     (if n < 0 then CHR ''-'' # hex_digits (nat (- n))
      else (let ds = hex_digits (nat n) in replicate (2 - length ds) CHR ''0'' @ ds))"

text \<open>
  The property \<^verbatim>\<open>colour\<close>. \<^verbatim>\<open>r, g, b = self.led_colour_rgb\<close> raises ValueError unless the list
  has three items.
\<close>

definition colour :: "mug \<Rightarrow> exn + string" where
  "colour m =
     (case led_colour_rgb m of
        [r, g, b] \<Rightarrow> Inr (CHR ''#'' # format_02x r @ format_02x g @ format_02x b)
      | _ \<Rightarrow> Inl ValueError)"

subsection \<open>Reading the characteristics\<close>

text \<open>\<^verbatim>\<open>_temp_from_bytes\<close>\<close>

definition temp_from_bytes :: "mug \<Rightarrow> byte list \<Rightarrow> exn + pyfloat" where
  "temp_from_bytes m temp_bytes =
     (case py_float (from_bytes_little temp_bytes) of
        Inl e \<Rightarrow> Inl e
      | Inr f \<Rightarrow>
          (let temp = fl (\<lambda>q. q * float_0_01) f;
               temp = (if use_metric m = False
                       then fl (\<lambda>q. q + 32) (fl (\<lambda>q. q / 5) (fl (\<lambda>q. q * 9) temp))
                       else temp)
           in Inr (py_round_2 temp)))"

text \<open>\<^verbatim>\<open>current_battery[0]\<close> raises IndexError on an empty payload.\<close>

definition update_battery :: "'c env \<Rightarrow> ('c, unit) coro" where
  "update_battery env =
     andthen (read_gatt_char env BATTERY_UUID) (\<lambda>current_battery.
       case current_battery of
         [] \<Rightarrow> raise IndexError
       | b # _ \<Rightarrow>
           andthen (of_sum (py_float (uint b))) (\<lambda>battery_percent.
           andthen (logger Debug Battery_is_at) (\<lambda>_.
           modify (\<lambda>m. m\<lparr>battery := Some (py_round_2 battery_percent)\<rparr>))))"

text \<open>\<^verbatim>\<open>r, g, b, _ = ...\<close> raises ValueError unless the payload has four bytes.\<close>

definition update_led_colour :: "'c env \<Rightarrow> ('c, unit) coro" where
  "update_led_colour env =
     andthen (read_gatt_char env LED_COLOUR_UUID) (\<lambda>payload.
       case payload of
         [r, g, b, _] \<Rightarrow> modify (\<lambda>m. m\<lparr>led_colour_rgb := [uint r, uint g, uint b]\<rparr>)
       | _ \<Rightarrow> raise ValueError)"

definition update_target_temp :: "'c env \<Rightarrow> ('c, unit) coro" where
  "update_target_temp env =
     andthen (read_gatt_char env TARGET_TEMP_UUID) (\<lambda>temp_bytes.
     andthen (\<lambda>w. of_sum (temp_from_bytes (self w) temp_bytes) w) (\<lambda>t.
     andthen (modify (\<lambda>m. m\<lparr>target_temp := Some t\<rparr>)) (\<lambda>_.
     logger Debug Target_temp_is)))"

definition update_current_temp :: "'c env \<Rightarrow> ('c, unit) coro" where
  "update_current_temp env =
     andthen (read_gatt_char env CURRENT_TEMP_UUID) (\<lambda>temp_bytes.
     andthen (\<lambda>w. of_sum (temp_from_bytes (self w) temp_bytes) w) (\<lambda>t.
     andthen (modify (\<lambda>m. m\<lparr>current_temp := Some t\<rparr>)) (\<lambda>_.
     logger Debug Current_temp_is)))"

subsection \<open>state_notify\<close>

text \<open>
  \<^verbatim>\<open>new_state = data[0]\<close> raises IndexError on an empty payload.
  \<^verbatim>\<open>new_state not in [1, self.state]\<close> compares with \<^verbatim>\<open>==\<close>, and an integer never equals
  \<^verbatim>\<open>None\<close>.
\<close>

definition state_notify :: "int \<Rightarrow> byte list \<Rightarrow> ('c, unit) coro" where
  "state_notify sender data =
     (case data of
        [] \<Rightarrow> raise IndexError
      | b # _ \<Rightarrow>
          (let new_state = uint b in
           (\<lambda>w. if new_state \<noteq> 1 \<and> Some new_state \<noteq> state (self w)
                then andthen (logger Info (State_changed (state (self w)) new_state))
                       (\<lambda>_. modify (\<lambda>m. m\<lparr>state := Some new_state\<rparr>)) w
                else ret () w)))"

subsection \<open>connect\<close>

text \<open>
  One pass of the body of \<^verbatim>\<open>for i in range(1, 10 + 1)\<close>; it returns the new value of
  \<^verbatim>\<open>connected\<close> (\<open>connected_flag\<close> here). After a success \<^verbatim>\<open>continue\<close> goes on to the
  next \<open>i\<close>. In the handler \<^verbatim>\<open>asyncio.sleep(30)\<close> has no \<^verbatim>\<open>await\<close>: the coroutine is
  created and dropped, and nothing waits.
\<close>

definition attempt :: "'c env \<Rightarrow> nat \<Rightarrow> bool \<Rightarrow> ('c, bool) coro" where
  "attempt env i connected_flag =
     except_BleakError
       (andthen (ext_call Call_connect (client_connect env)) (\<lambda>_.
        andthen (ext_call Call_pair (client_pair env)) (\<lambda>_.
        andthen (logger Info Connected_to) (\<lambda>_.
        ret True))))
       (\<lambda>e. andthen (logger Error (Init_error_on_attempt e i)) (\<lambda>_.
            andthen (emit (Sleep_not_awaited 30)) (\<lambda>_.
            ret connected_flag)))"

fun attempts :: "'c env \<Rightarrow> nat list \<Rightarrow> bool \<Rightarrow> ('c, bool) coro" where
  "attempts env [] connected_flag = ret connected_flag"
| "attempts env (i # is) connected_flag = andthen (attempt env i connected_flag) (attempts env is)"

text \<open>The last \<^verbatim>\<open>try\<close> of \<^verbatim>\<open>connect\<close>: the subscription to the state notifications.\<close>

definition subscribe :: "'c env \<Rightarrow> ('c, unit) coro" where
  "subscribe env =
     except_Exception
       (andthen (logger Info Try_to_subscribe) (\<lambda>_.
        ext_call (Call_start_notify STATE_UUID) (client_start_notify env STATE_UUID)))
       (\<lambda>e. if e = BleakError then logger Warning Failed_to_subscribe
            else logger Error (Unexpected_error_notify e))"

text \<open>
  The body of \<^verbatim>\<open>connect\<close>, with \<open>again\<close> for the call \<^verbatim>\<open>await self.connect()\<close> in it.
\<close>

definition connect_body :: "'c env \<Rightarrow> ('c, unit) coro \<Rightarrow> ('c, unit) coro" where
  "connect_body env again =
     andthen (attempts env [1..<10 + 1] False) (\<lambda>connected_flag.
     andthen (if connected_flag = False
              then andthen (callback env) (\<lambda>_.
                   andthen (logger Warning Failed_to_connect_after_10_tries) (\<lambda>_.
                   andthen (emit (Await_sleep (5 * 60))) (\<lambda>_.
                   again)))
              else ret ()) (\<lambda>_.
     subscribe env))"

text \<open>
  \<^verbatim>\<open>connect\<close> calls itself without a bound; the fuel is the number of nested calls the
  model follows, and the innermost call is \<open>Pending\<close> when the fuel is used up.
\<close>

primrec connect :: "nat \<Rightarrow> 'c env \<Rightarrow> ('c, unit) coro" where
  "connect 0 env = connect_body env pending"
| "connect (Suc fuel) env = connect_body env (connect fuel env)"

subsection \<open>update_all\<close>

datatype attr = A_led_colour | A_current_temp | A_target_temp | A_battery

definition update_attrs :: "attr list" where
  "update_attrs = [A_led_colour, A_current_temp, A_target_temp, A_battery]"

text \<open>\<^verbatim>\<open>getattr(self, f"update_{attr}")()\<close>\<close>

fun update_attr :: "'c env \<Rightarrow> attr \<Rightarrow> ('c, unit) coro" where
  "update_attr env A_led_colour = update_led_colour env"
| "update_attr env A_current_temp = update_current_temp env"
| "update_attr env A_target_temp = update_target_temp env"
| "update_attr env A_battery = update_battery env"

fun for_attrs :: "'c env \<Rightarrow> attr list \<Rightarrow> ('c, unit) coro" where
  "for_attrs env [] = ret ()"
| "for_attrs env (a # as) = andthen (update_attr env a) (\<lambda>_. for_attrs env as)"

definition update_all :: "nat \<Rightarrow> 'c env \<Rightarrow> ('c, bool) coro" where
  "update_all fuel env =
     except_BleakError
       (andthen (is_connected env) (\<lambda>c.
        andthen (if \<not> c then connect fuel env else ret ()) (\<lambda>_.
        andthen (for_attrs env update_attrs) (\<lambda>_.
        ret True))))
       (\<lambda>e. andthen (logger Error (Error_str e)) (\<lambda>_. ret False))"

subsection \<open>async_run\<close>

text \<open>\<^verbatim>\<open>for _ in range(15): await self.client.is_connected(); await asyncio.sleep(2)\<close>\<close>

primrec dwell :: "'c env \<Rightarrow> nat \<Rightarrow> ('c, unit) coro" where
  "dwell env 0 = ret ()"
| "dwell env (Suc k) =
     andthen (is_connected env) (\<lambda>_.
     andthen (emit (Await_sleep 2)) (\<lambda>_.
     dwell env k))"

text \<open>The body of \<^verbatim>\<open>while self._loop\<close>.\<close>

definition iteration :: "nat \<Rightarrow> 'c env \<Rightarrow> ('c, unit) coro" where
  "iteration fuel env =
     andthen (is_connected env) (\<lambda>c.
     andthen (if \<not> c then connect fuel env else ret ()) (\<lambda>_.
     andthen (update_all fuel env) (\<lambda>_.
     andthen (callback env) (\<lambda>_.
     dwell env 15))))"

text \<open>
  \<^verbatim>\<open>while self._loop\<close>: \<open>n\<close> is the number of iterations the model follows; the loop is
  \<open>Pending\<close> when it would start one more.
\<close>

primrec while_loop :: "nat \<Rightarrow> nat \<Rightarrow> 'c env \<Rightarrow> ('c, unit) coro" where
  "while_loop 0 fuel env = (\<lambda>w. if loop (self w) then pending w else ret () w)"
| "while_loop (Suc n) fuel env =
     (\<lambda>w. if loop (self w)
          then andthen (iteration fuel env) (\<lambda>_. while_loop n fuel env) w
          else ret () w)"

definition async_run :: "nat \<Rightarrow> nat \<Rightarrow> 'c env \<Rightarrow> ('c, unit) coro" where
  "async_run n fuel env =
     except_Exception
       (andthen (modify (\<lambda>m. m\<lparr>loop := True\<rparr>)) (\<lambda>_.
        andthen (logger Info Starting_mug_loop) (\<lambda>_.
        while_loop n fuel env)))
       (\<lambda>e. andthen (logger Error (Unexpected_error_restarting e)) (\<lambda>_.
            emit Create_task_async_run))"

subsection \<open>disconnect\<close>

text \<open>\<^verbatim>\<open>with contextlib.suppress(BleakError): m\<close>\<close>

definition suppress_BleakError :: "('c, unit) coro \<Rightarrow> ('c, unit) coro" where
  "suppress_BleakError m = except_BleakError m (\<lambda>_. ret ())"

definition disconnect :: "'c env \<Rightarrow> ('c, unit) coro" where
  "disconnect env =
     andthen (modify (\<lambda>m. m\<lparr>loop := False\<rparr>)) (\<lambda>_.
     andthen (suppress_BleakError
                (ext_call (Call_stop_notify STATE_UUID) (client_stop_notify env STATE_UUID))) (\<lambda>_.
     suppress_BleakError
       (andthen (is_connected env) (\<lambda>c.
        if c then ext_call Call_disconnect (client_disconnect env) else ret ()))))"

section \<open>services.set_target_temp\<close>

text \<open>\<^verbatim>\<open>bytearray(int(temp / 0.01).to_bytes(2, "little"))\<close>\<close>

definition target_of_temp :: "pyfloat \<Rightarrow> exn + byte list" where
  "target_of_temp temp =
     (case py_int (fl (\<lambda>q. q / float_0_01) temp) of
        Inl e \<Rightarrow> Inl e
      | Inr n \<Rightarrow> to_bytes_2_little n)"

definition set_target_temp :: "'c env \<Rightarrow> pyfloat \<Rightarrow> ('c, unit) coro" where
  "set_target_temp env temp =
     andthen (logger Debug Set_to) (\<lambda>_.
     andthen (of_sum (target_of_temp temp)) (\<lambda>target.
     andthen (ext_call (Call_write_gatt_char TARGET_TEMP_UUID target False)
                (client_write_gatt_char env TARGET_TEMP_UUID target False)) (\<lambda>resp.
     logger Debug Write_response)))"

section \<open>A device to run the code against\<close>

text \<open>
  A simple outside world. Its state is the list of outcomes of the coming calls of
  \<^verbatim>\<open>client.connect\<close> (\<open>True\<close>: it returns; \<open>False\<close>, or no entry left: BleakError).
  \<open>up\<close> is what \<^verbatim>\<open>is_connected\<close> answers and \<open>chars\<close> what a read of each characteristic
  gives; everything else returns.
\<close>

definition device :: "bool \<Rightarrow> (uuid \<Rightarrow> exn + byte list) \<Rightarrow> bool list env" where
  "device up chars =
     \<lparr> client_is_connected = (\<lambda>c. (Inr up, c)),
       client_connect = (\<lambda>c. case c of [] \<Rightarrow> (Inl BleakError, [])
                              | ok # c' \<Rightarrow> (if ok then Inr () else Inl BleakError, c')),
       client_pair = (\<lambda>c. (Inr (), c)),
       client_disconnect = (\<lambda>c. (Inr (), c)),
       client_read_gatt_char = (\<lambda>u c. (chars u, c)),
       client_write_gatt_char = (\<lambda>u bs r c. (Inr (), c)),
       client_start_notify = (\<lambda>u c. (Inr (), c)),
       client_stop_notify = (\<lambda>u c. (Inr (), c)),
       async_update_callback = (\<lambda>c. (Inr (), c)) \<rparr>"

text \<open>A mug with LED colour ff0080, at 1.00 degrees, target 58 hundredths, battery 80.\<close>

definition chars_ok :: "uuid \<Rightarrow> exn + byte list" where
  "chars_ok u =
     (case u of
        LED_COLOUR_UUID \<Rightarrow> Inr [0xFF, 0x00, 0x80, 0x00]
      | CURRENT_TEMP_UUID \<Rightarrow> Inr [0x64, 0x00]
      | TARGET_TEMP_UUID \<Rightarrow> Inr [0x3A, 0x00]
      | BATTERY_UUID \<Rightarrow> Inr [0x50]
      | STATE_UUID \<Rightarrow> Inr [0x03])"

text \<open>The same mug when the read of the target temperature fails.\<close>

definition chars_target_fails :: "uuid \<Rightarrow> exn + byte list" where
  "chars_target_fails u = (if u = TARGET_TEMP_UUID then Inl BleakError else chars_ok u)"

text \<open>The same mug when the colour characteristic holds three bytes only.\<close>

definition chars_rgb :: "uuid \<Rightarrow> exn + byte list" where
  "chars_rgb u = (if u = LED_COLOUR_UUID then Inr [0xFF, 0x00, 0x80] else chars_ok u)"

definition world0 :: "bool list \<Rightarrow> bool list world" where
  "world0 c = \<lparr> self = init ''aa:bb'' True, ext = c, trace = [] \<rparr>"

section \<open>Notions used by the properties\<close>

text \<open>The characteristic that each updater reads.\<close>

fun uuid_of :: "attr \<Rightarrow> uuid" where
  "uuid_of A_led_colour = LED_COLOUR_UUID"
| "uuid_of A_current_temp = CURRENT_TEMP_UUID"
| "uuid_of A_target_temp = TARGET_TEMP_UUID"
| "uuid_of A_battery = BATTERY_UUID"

text \<open>The characteristics read in a stretch of the trace, in order.\<close>

fun reads :: "event list \<Rightarrow> uuid list" where
  "reads [] = []"
| "reads (Call_read_gatt_char u # es) = u # reads es"
| "reads (_ # es) = reads es"

text \<open>
  What one pass of \<^verbatim>\<open>connect\<close> does when every \<^verbatim>\<open>client.connect()\<close> raises BleakError,
  up to the point where it calls itself.
\<close>

definition failed_burst :: "event list" where
  "failed_burst =
     concat (map (\<lambda>i. [Call_connect, Log Error (Init_error_on_attempt BleakError i),
                       Sleep_not_awaited 30]) [1..<10 + 1])
     @ [Update_callback, Log Warning Failed_to_connect_after_10_tries, Await_sleep (5 * 60)]"

text \<open>
  \<open>later w w'\<close>: the world \<open>w'\<close> has the trace of \<open>w\<close> with more events after it, and the
  same \<open>available\<close>. A coroutine is \<open>steady\<close> when it only leads to later worlds.
\<close>

definition later :: "'c world \<Rightarrow> 'c world \<Rightarrow> bool" where
  "later w w' = (available (self w') = available (self w) \<and> (\<exists>es. trace w' = trace w @ es))"

definition steady :: "('c, 'a) coro \<Rightarrow> bool" where
  "steady m = (\<forall>w. later w (snd (m w)))"





section \<open>Sequencing lemmas\<close>

lemmas coro_defs =
  andthen_def ret_def raise_def pending_def of_sum_def emit_def logger_def modify_def
  ext_call_def except_BleakError_def except_Exception_def

lemma andthen_ret [simp]: "andthen (ret a) f = f a"
  by (rule ext) (simp add: andthen_def ret_def)

lemma andthen_assoc: "andthen (andthen m f) g = andthen m (\<lambda>a. andthen (f a) g)"
  by (rule ext) (simp add: andthen_def split: prod.splits res.splits)

lemma andthen_Ret: "m w = (Ret a, w') \<Longrightarrow> andthen m f w = f a w'"
  by (simp add: andthen_def)

lemma andthen_Exn: "m w = (Exn e, w') \<Longrightarrow> andthen m f w = (Exn e, w')"
  by (simp add: andthen_def)

lemma andthen_Pending: "m w = (Pending, w') \<Longrightarrow> andthen m f w = (Pending, w')"
  by (simp add: andthen_def)

lemma upt_1_11: "[1..<10 + 1] = [1, 2, 3, 4, 5, 6, 7, 8, 9, 10::nat]"
  by code_simp

section \<open>The notification handler\<close>

text \<open>
  C3. For every non-empty notification payload the handler stores the first byte as the
  new status exactly when that byte is neither 1 nor equal to the stored status, and logs
  the change; otherwise it leaves the world as it is. An empty payload raises IndexError
  and changes nothing. In particular, with the stored status 3, the byte 1 leaves 3, the
  byte 3 leaves 3 and the byte 5 gives 5.
\<close>

theorem state_notify_applies:
  "state_notify sender (b # rest) w =
     (if uint b \<noteq> 1 \<and> Some (uint b) \<noteq> state (self w)
      then (Ret (), w\<lparr>self := (self w)\<lparr>state := Some (uint b)\<rparr>,
                      trace := trace w @ [Log Info (State_changed (state (self w)) (uint b))]\<rparr>)
      else (Ret (), w))
   \<and> state_notify sender [] w = (Exn IndexError, w)
   \<and> state (self (snd (state_notify sender [1] (w\<lparr>self := (self w)\<lparr>state := Some 3\<rparr>\<rparr>)))) = Some 3
   \<and> state (self (snd (state_notify sender [3] (w\<lparr>self := (self w)\<lparr>state := Some 3\<rparr>\<rparr>)))) = Some 3
   \<and> state (self (snd (state_notify sender [5] (w\<lparr>self := (self w)\<lparr>state := Some 3\<rparr>\<rparr>)))) = Some 5"
  by (simp add: state_notify_def Let_def coro_defs)

theorem state_notify_applies_witness:
  "state_notify 0 [5] ((world0 [])\<lparr>self := (init ''aa:bb'' True)\<lparr>state := Some 3\<rparr>\<rparr>) =
     (Ret (), \<lparr>self = (init ''aa:bb'' True)\<lparr>state := Some 5\<rparr>, ext = [],
               trace = [Log Info (State_changed (Some 3) 5)]\<rparr>)"
  using state_notify_applies
    [of 0 5 "[]" "(world0 [])\<lparr>self := (init ''aa:bb'' True)\<lparr>state := Some 3\<rparr>\<rparr>"]
  by (simp add: world0_def)

section \<open>connect against a device that cannot be reached\<close>

lemma attempt_unreachable:
  "attempt (device up chars) i c \<lparr>self = s, ext = [], trace = t\<rparr> =
     (Ret c, \<lparr>self = s, ext = [], trace = t @ [Call_connect,
        Log Error (Init_error_on_attempt BleakError i), Sleep_not_awaited 30]\<rparr>)"
  by (simp add: attempt_def coro_defs device_def)

lemma attempts_unreachable:
  "attempts (device up chars) is c \<lparr>self = s, ext = [], trace = t\<rparr> =
     (Ret c, \<lparr>self = s, ext = [], trace = t @ concat (map (\<lambda>i. [Call_connect,
        Log Error (Init_error_on_attempt BleakError i), Sleep_not_awaited 30]) is)\<rparr>)"
proof (induction "is" arbitrary: t)
  case Nil
  then show ?case by (simp add: ret_def)
next
  case (Cons i "is")
  show ?case by (simp add: andthen_def attempt_unreachable Cons.IH)
qed

lemma connect_body_unreachable:
  "connect_body (device up chars) again \<lparr>self = s, ext = [], trace = t\<rparr> =
     andthen again (\<lambda>_. subscribe (device up chars))
       \<lparr>self = s, ext = [], trace = t @ failed_burst\<rparr>"
proof -
  have "callback (device up chars) \<lparr>self = s, ext = [], trace = t'\<rparr> =
        (Ret (), \<lparr>self = s, ext = [], trace = t' @ [Update_callback]\<rparr>)" for t'
    by (simp add: callback_def ext_call_def device_def)
  then show ?thesis
    unfolding connect_body_def failed_burst_def
    by (simp add: andthen_def attempts_unreachable emit_def logger_def)
qed

lemma connect_unreachable:
  "connect fuel (device up chars) \<lparr>self = s, ext = [], trace = t\<rparr> =
     (Pending, \<lparr>self = s, ext = [], trace = t @ concat (replicate (Suc fuel) failed_burst)\<rparr>)"
proof (induction fuel arbitrary: t)
  case 0
  show ?case by (simp add: connect_body_unreachable andthen_def pending_def)
next
  case (Suc fuel)
  show ?case by (simp add: connect_body_unreachable andthen_def Suc.IH)
qed

text \<open>
  C1. Against a device on which every \<^verbatim>\<open>client.connect()\<close> raises BleakError, \<^verbatim>\<open>connect\<close>
  never returns and never raises: whatever the fuel, the model is still pending, after one
  burst for each nested call it followed. A burst is ten calls of \<^verbatim>\<open>client.connect()\<close>,
  each followed by the error log and by a sleep coroutine that is created but not awaited,
  then the observer callback, the warning and an awaited sleep of 300 seconds. No sleep of
  30 seconds is ever awaited: the ten attempts of a burst follow each other at once.
\<close>

theorem connect_unreachable_no_wait:
  "connect fuel (device up chars) \<lparr>self = s, ext = [], trace = []\<rparr> =
     (Pending, \<lparr>self = s, ext = [], trace = concat (replicate (Suc fuel) failed_burst)\<rparr>)
   \<and> failed_burst =
       [Call_connect, Log Error (Init_error_on_attempt BleakError 1), Sleep_not_awaited 30,
        Call_connect, Log Error (Init_error_on_attempt BleakError 2), Sleep_not_awaited 30,
        Call_connect, Log Error (Init_error_on_attempt BleakError 3), Sleep_not_awaited 30,
        Call_connect, Log Error (Init_error_on_attempt BleakError 4), Sleep_not_awaited 30,
        Call_connect, Log Error (Init_error_on_attempt BleakError 5), Sleep_not_awaited 30,
        Call_connect, Log Error (Init_error_on_attempt BleakError 6), Sleep_not_awaited 30,
        Call_connect, Log Error (Init_error_on_attempt BleakError 7), Sleep_not_awaited 30,
        Call_connect, Log Error (Init_error_on_attempt BleakError 8), Sleep_not_awaited 30,
        Call_connect, Log Error (Init_error_on_attempt BleakError 9), Sleep_not_awaited 30,
        Call_connect, Log Error (Init_error_on_attempt BleakError 10), Sleep_not_awaited 30,
        Update_callback, Log Warning Failed_to_connect_after_10_tries, Await_sleep 300]
   \<and> Await_sleep 30 \<notin> set (concat (replicate (Suc fuel) failed_burst))"
proof (intro conjI)
  show "connect fuel (device up chars) \<lparr>self = s, ext = [], trace = []\<rparr> =
     (Pending, \<lparr>self = s, ext = [], trace = concat (replicate (Suc fuel) failed_burst)\<rparr>)"
    using connect_unreachable [of fuel up chars s "[]"] by simp
  show "Await_sleep 30 \<notin> set (concat (replicate (Suc fuel) failed_burst))"
    unfolding failed_burst_def upt_1_11 by simp
  show "failed_burst = [Call_connect, Log Error (Init_error_on_attempt BleakError 1), Sleep_not_awaited 30,
        Call_connect, Log Error (Init_error_on_attempt BleakError 2), Sleep_not_awaited 30,
        Call_connect, Log Error (Init_error_on_attempt BleakError 3), Sleep_not_awaited 30,
        Call_connect, Log Error (Init_error_on_attempt BleakError 4), Sleep_not_awaited 30,
        Call_connect, Log Error (Init_error_on_attempt BleakError 5), Sleep_not_awaited 30,
        Call_connect, Log Error (Init_error_on_attempt BleakError 6), Sleep_not_awaited 30,
        Call_connect, Log Error (Init_error_on_attempt BleakError 7), Sleep_not_awaited 30,
        Call_connect, Log Error (Init_error_on_attempt BleakError 8), Sleep_not_awaited 30,
        Call_connect, Log Error (Init_error_on_attempt BleakError 9), Sleep_not_awaited 30,
        Call_connect, Log Error (Init_error_on_attempt BleakError 10), Sleep_not_awaited 30,
        Update_callback, Log Warning Failed_to_connect_after_10_tries, Await_sleep 300]"
    unfolding failed_burst_def upt_1_11 by simp
qed

section \<open>The poll cycle\<close>

lemma reads_append [simp]: "reads (xs @ ys) = reads xs @ reads ys"
  by (induction xs rule: reads.induct) simp_all

lemma read_gatt_char_trace:
  "read_gatt_char env u w = (r, w') \<Longrightarrow>
     trace w' = trace w @ [Call_read_gatt_char u] \<and> self w' = self w"
  by (auto simp: read_gatt_char_def ext_call_def split: prod.splits sum.splits)

lemmas update_defs =
  update_led_colour_def update_current_temp_def update_target_temp_def update_battery_def

lemma update_attr_reads:
  assumes "update_attr env a w = (r, w')"
  shows "\<exists>es. trace w' = trace w @ es \<and> reads es = [uuid_of a]"
proof -
  obtain r1 w1 where r1: "read_gatt_char env (uuid_of a) w = (r1, w1)"
    by (cases "read_gatt_char env (uuid_of a) w")
  note t1 = read_gatt_char_trace [OF r1]
  show ?thesis
    using assms r1 t1
    by (cases a; cases r1)
      (auto simp: update_defs coro_defs split: list.splits sum.splits)
qed

lemma update_attr_not_Pending: "update_attr env a w \<noteq> (Pending, w')"
  by (cases a)
    (auto simp: update_defs read_gatt_char_def coro_defs
      split: list.splits sum.splits prod.splits res.splits)

lemma for_attrs_reads:
  "for_attrs env as w = (r, w') \<Longrightarrow> r \<noteq> Pending \<and> (\<exists>es. trace w' = trace w @ es \<and>
     (case r of Ret _ \<Rightarrow> reads es = map uuid_of as
              | _ \<Rightarrow> \<exists>n < length as. reads es = map uuid_of (take (Suc n) as)))"
proof (induction as arbitrary: w)
  case Nil
  then show ?case by (auto simp: ret_def)
next
  case (Cons a as)
  obtain r1 w1 where r1: "update_attr env a w = (r1, w1)"
    by (cases "update_attr env a w")
  from update_attr_reads [OF r1] obtain es1 where
    es1: "trace w1 = trace w @ es1" "reads es1 = [uuid_of a]" by blast
  show ?case
  proof (cases r1)
    case (Ret u)
    with Cons.prems r1 have "for_attrs env as w1 = (r, w')"
      by (simp add: andthen_def)
    from Cons.IH [OF this] es1 show ?thesis
      by (cases r) (auto, force+)
  next
    case (Exn e)
    with Cons.prems r1 have "r = Exn e" "w' = w1" by (simp_all add: andthen_def)
    with es1 show ?thesis by auto
  next
    case Pending
    with r1 update_attr_not_Pending show ?thesis by blast
  qed
qed

lemma for_attrs_append:
  "for_attrs env (xs @ ys) = andthen (for_attrs env xs) (\<lambda>_. for_attrs env ys)"
  by (induction xs) (simp_all add: andthen_assoc)

lemma update_attr_read_fails:
  assumes "client_read_gatt_char env (uuid_of a) (ext w) = (Inl e, c')"
  shows "update_attr env a w =
         (Exn e, \<lparr>self = self w, ext = c', trace = trace w @ [Call_read_gatt_char (uuid_of a)]\<rparr>)"
  using assms
  by (cases a) (simp_all add: update_defs read_gatt_char_def andthen_def ext_call_def)

text \<open>
  C2. A poll cycle reads the colour, the current temperature, the target temperature and
  the battery, in this order. Let the connection check at the start of the cycle return,
  let the first \<open>k\<close> updates succeed and leave the world \<open>wk\<close>, and let the next read fail
  with BleakError. Then the cycle returns \<open>False\<close>; nothing is read after the failing read,
  which is followed by the error log only; the characteristics read are the first \<open>k + 1\<close>
  of the fixed order; and the attributes are those of \<open>wk\<close>: what the \<open>k\<close> successful
  updates stored stays stored.
\<close>

theorem update_all_partial:
  assumes conn: "andthen (is_connected env) (\<lambda>c. if \<not> c then connect fuel env else ret ()) w
                 = (Ret (), w0)"
    and k: "k < length update_attrs"
    and pre: "for_attrs env (take k update_attrs) w0 = (Ret (), wk)"
    and fail: "client_read_gatt_char env (uuid_of (update_attrs ! k)) (ext wk)
               = (Inl BleakError, c')"
  shows "update_all fuel env w =
           (Ret False,
            \<lparr>self = self wk, ext = c',
             trace = trace wk @ [Call_read_gatt_char (uuid_of (update_attrs ! k)),
                                Log Error (Error_str BleakError)]\<rparr>)
         \<and> (\<exists>es. trace wk = trace w0 @ es
              \<and> reads (es @ [Call_read_gatt_char (uuid_of (update_attrs ! k))])
                = take (Suc k) [LED_COLOUR_UUID, CURRENT_TEMP_UUID, TARGET_TEMP_UUID, BATTERY_UUID])"
proof
  let ?a = "update_attrs ! k"
  let ?wf = "\<lparr>self = self wk, ext = c', trace = trace wk @ [Call_read_gatt_char (uuid_of ?a)]\<rparr>"
  have split: "update_attrs = take k update_attrs @ ?a # drop (Suc k) update_attrs"
    using k by (rule id_take_nth_drop)
  have "for_attrs env update_attrs w0 =
        andthen (for_attrs env (take k update_attrs))
          (\<lambda>_. for_attrs env (?a # drop (Suc k) update_attrs)) w0"
    by (subst split) (simp only: for_attrs_append)
  also have "\<dots> = for_attrs env (?a # drop (Suc k) update_attrs) wk"
    by (simp add: andthen_def pre)
  also have "\<dots> = (Exn BleakError, ?wf)"
    by (simp add: andthen_def update_attr_read_fails [OF fail])
  finally have body: "for_attrs env update_attrs w0 = (Exn BleakError, ?wf)" .
  have "andthen (is_connected env) (\<lambda>c.
          andthen (if \<not> c then connect fuel env else ret ()) (\<lambda>_.
          andthen (for_attrs env update_attrs) (\<lambda>_. ret True))) w
        = andthen (for_attrs env update_attrs) (\<lambda>_. ret True) w0"
    using andthen_Ret
      [of "andthen (is_connected env) (\<lambda>c. if \<not> c then connect fuel env else ret ())"
        w "()" w0 "\<lambda>_. andthen (for_attrs env update_attrs) (\<lambda>_. ret True)", OF conn]
    by (simp add: andthen_assoc)
  also have "\<dots> = (Exn BleakError, ?wf)"
    by (simp add: andthen_def body)
  finally show "update_all fuel env w =
           (Ret False,
            \<lparr>self = self wk, ext = c',
             trace = trace wk @ [Call_read_gatt_char (uuid_of ?a),
                                Log Error (Error_str BleakError)]\<rparr>)"
    by (simp add: update_all_def except_BleakError_def andthen_def logger_def emit_def ret_def)
next
  from for_attrs_reads [OF pre] obtain es where
    es: "trace wk = trace w0 @ es" "reads es = map uuid_of (take k update_attrs)" by auto
  have "map uuid_of (take k update_attrs) @ [uuid_of (update_attrs ! k)]
        = take (Suc k) (map uuid_of update_attrs)"
    using k by (simp add: take_Suc_conv_app_nth take_map)
  with es show "\<exists>es. trace wk = trace w0 @ es
              \<and> reads (es @ [Call_read_gatt_char (uuid_of (update_attrs ! k))])
                = take (Suc k) [LED_COLOUR_UUID, CURRENT_TEMP_UUID, TARGET_TEMP_UUID, BATTERY_UUID]"
    by (auto simp: update_attrs_def)
qed

theorem update_all_partial_witness:
  "update_all 0 (device True chars_target_fails) (world0 []) =
     (Ret False,
      \<lparr>self = (init ''aa:bb'' True)\<lparr>led_colour_rgb := [255, 0, 128],
                                      current_temp := Some (Finite 1)\<rparr>,
       ext = [],
       trace = [Call_is_connected, Call_read_gatt_char LED_COLOUR_UUID,
                Call_read_gatt_char CURRENT_TEMP_UUID, Log Debug Current_temp_is,
                Call_read_gatt_char TARGET_TEMP_UUID, Log Error (Error_str BleakError)]\<rparr>)"
proof -
  let ?env = "device True chars_target_fails"
  let ?w0 = "\<lparr>self = init ''aa:bb'' True, ext = [], trace = [Call_is_connected]\<rparr>"
  let ?wk = "\<lparr>self = (init ''aa:bb'' True)\<lparr>led_colour_rgb := [255, 0, 128],
                                           current_temp := Some (Finite 1)\<rparr>,
             ext = [],
             trace = [Call_is_connected, Call_read_gatt_char LED_COLOUR_UUID,
                      Call_read_gatt_char CURRENT_TEMP_UUID, Log Debug Current_temp_is]\<rparr>"
  have 1: "andthen (is_connected ?env) (\<lambda>c. if \<not> c then connect 0 ?env else ret ()) (world0 [])
           = (Ret (), ?w0)"
    by code_simp
  have 2: "2 < length update_attrs"
    by code_simp
  have 3: "for_attrs ?env (take 2 update_attrs) ?w0 = (Ret (), ?wk)"
    by code_simp
  have 4: "client_read_gatt_char ?env (uuid_of (update_attrs ! 2)) (ext ?wk) = (Inl BleakError, [])"
    by code_simp
  from update_all_partial [OF 1 2 3 4] show ?thesis
    by (simp add: update_attrs_def)
qed

section \<open>What every coroutine leaves alone\<close>

text \<open>
  Every coroutine of the model only appends to the trace and leaves \<open>available\<close> as it
  found it.
\<close>

lemma later_refl [simp]: "later w w"
  by (simp add: later_def)

lemma later_trans: "later w w' \<Longrightarrow> later w' w'' \<Longrightarrow> later w w''"
  by (auto simp: later_def)

lemma steadyD: "steady m \<Longrightarrow> m w = (r, w') \<Longrightarrow> later w w'"
  by (auto simp: steady_def dest: spec [of _ w])

lemma steady_ret [simp]: "steady (ret a)"
  and steady_raise [simp]: "steady (raise e)"
  and steady_pending [simp]: "steady pending"
  and steady_emit [simp]: "steady (emit ev)"
  and steady_logger [simp]: "steady (logger l x)"
  and steady_ext_call [simp]: "steady (ext_call ev f)"
  by (auto simp: steady_def later_def coro_defs split: prod.splits sum.splits)

lemma steady_of_sum [simp]: "steady (of_sum x)"
  by (cases x) (simp_all add: of_sum_def)

lemma steady_modify: "(\<And>m. available (g m) = available m) \<Longrightarrow> steady (modify g)"
  by (simp add: steady_def later_def modify_def)

lemma steady_andthen:
  assumes "steady m" and "\<And>a. steady (f a)"
  shows "steady (andthen m f)"
  unfolding steady_def
proof
  fix w
  obtain r w1 where m: "m w = (r, w1)" by (cases "m w")
  from steadyD [OF assms(1) m] have 1: "later w w1" .
  show "later w (snd (andthen m f w))"
  proof (cases r)
    case (Ret a)
    obtain r2 w2 where f: "f a w1 = (r2, w2)" by (cases "f a w1")
    from steadyD [OF assms(2) f] have "later w1 w2" .
    with 1 m Ret f show ?thesis by (auto simp: andthen_def intro: later_trans)
  qed (use 1 m in \<open>simp_all add: andthen_def\<close>)
qed

lemma steady_except_BleakError:
  assumes "steady m" and "\<And>e. steady (h e)"
  shows "steady (except_BleakError m h)"
  unfolding steady_def
proof
  fix w
  obtain r w1 where m: "m w = (r, w1)" by (cases "m w")
  from steadyD [OF assms(1) m] have 1: "later w w1" .
  show "later w (snd (except_BleakError m h w))"
  proof (cases r)
    case (Exn e)
    obtain r2 w2 where f: "h e w1 = (r2, w2)" by (cases "h e w1")
    from steadyD [OF assms(2) f] have "later w1 w2" .
    with 1 m Exn f show ?thesis by (auto simp: except_BleakError_def intro: later_trans)
  qed (use 1 m in \<open>simp_all add: except_BleakError_def\<close>)
qed

lemma steady_except_Exception:
  assumes "steady m" and "\<And>e. steady (h e)"
  shows "steady (except_Exception m h)"
  unfolding steady_def
proof
  fix w
  obtain r w1 where m: "m w = (r, w1)" by (cases "m w")
  from steadyD [OF assms(1) m] have 1: "later w w1" .
  show "later w (snd (except_Exception m h w))"
  proof (cases r)
    case (Exn e)
    obtain r2 w2 where f: "h e w1 = (r2, w2)" by (cases "h e w1")
    from steadyD [OF assms(2) f] have "later w1 w2" .
    with 1 m Exn f show ?thesis by (auto simp: except_Exception_def intro: later_trans)
  qed (use 1 m in \<open>simp_all add: except_Exception_def\<close>)
qed

lemma steady_if: "steady m \<Longrightarrow> steady m' \<Longrightarrow> steady (if b then m else m')"
  by simp

lemma steady_fun: "(\<And>w. steady (m w)) \<Longrightarrow> steady (\<lambda>w. m w w)"
  by (simp add: steady_def)

lemma steady_is_connected [simp]: "steady (is_connected env)"
  and steady_read_gatt_char [simp]: "steady (read_gatt_char env u)"
  and steady_callback [simp]: "steady (callback env)"
  by (simp_all add: is_connected_def read_gatt_char_def callback_def)

lemma steady_update_attr [simp]: "steady (update_attr env a)"
  by (cases a)
    (auto simp: steady_def later_def update_defs read_gatt_char_def coro_defs
      split: prod.splits sum.splits list.splits res.splits)

lemma steady_for_attrs [simp]: "steady (for_attrs env as)"
  by (induction as) (simp_all add: steady_andthen)

lemma steady_attempt [simp]: "steady (attempt env i c)"
  unfolding attempt_def by (intro steady_except_BleakError steady_andthen) simp_all

lemma steady_attempts [simp]: "steady (attempts env is c)"
  by (induction "is" arbitrary: c) (simp_all add: steady_andthen)

lemma steady_subscribe [simp]: "steady (subscribe env)"
  unfolding subscribe_def by (intro steady_except_Exception steady_andthen) simp_all

lemma steady_connect_body: "steady again \<Longrightarrow> steady (connect_body env again)"
  unfolding connect_body_def by (intro steady_andthen steady_if) simp_all

lemma steady_connect [simp]: "steady (connect fuel env)"
  by (induction fuel) (simp_all add: steady_connect_body)

lemma steady_update_all [simp]: "steady (update_all fuel env)"
  unfolding update_all_def by (intro steady_except_BleakError steady_andthen steady_if) simp_all

lemma steady_dwell [simp]: "steady (dwell env k)"
  by (induction k) (simp_all add: steady_andthen)

lemma steady_iteration [simp]: "steady (iteration fuel env)"
  unfolding iteration_def by (intro steady_andthen steady_if) simp_all

lemma steady_while_loop [simp]: "steady (while_loop n fuel env)"
proof (induction n)
  case 0
  show ?case by (simp add: steady_def pending_def ret_def)
next
  case (Suc n)
  have "steady (andthen (iteration fuel env) (\<lambda>_. while_loop n fuel env))"
    using Suc by (simp add: steady_andthen)
  then show ?case by (simp add: steady_def ret_def)
qed

lemma steady_async_run [simp]: "steady (async_run n fuel env)"
  unfolding async_run_def
  by (intro steady_except_Exception steady_andthen steady_modify) simp_all

lemma steady_state_notify [simp]: "steady (state_notify sender data)"
  by (cases data)
    (auto simp: state_notify_def Let_def steady_def later_def coro_defs)

lemma steady_disconnect [simp]: "steady (disconnect env)"
  unfolding disconnect_def suppress_BleakError_def
  by (intro steady_except_BleakError steady_andthen steady_modify steady_if) simp_all

lemma steady_set_target_temp [simp]: "steady (set_target_temp env temp)"
  unfolding set_target_temp_def by (intro steady_andthen) simp_all

lemma steady_trace: "steady m \<Longrightarrow> m w = (r, w') \<Longrightarrow> \<exists>es. trace w' = trace w @ es"
  by (auto dest: steadyD simp: later_def)

lemma steady_available: "steady m \<Longrightarrow> available (self (snd (m w))) = available (self w)"
  by (simp add: steady_def later_def)

section \<open>Evaluation against the device\<close>

lemma device_is_connected [simp]:
  "is_connected (device up chars) \<lparr>self = s, ext = c, trace = t\<rparr> =
     (Ret up, \<lparr>self = s, ext = c, trace = t @ [Call_is_connected]\<rparr>)"
  by (simp add: is_connected_def ext_call_def device_def)

lemma device_read [simp]:
  "read_gatt_char (device up chars) u \<lparr>self = s, ext = c, trace = t\<rparr> =
     (case chars u of Inl e \<Rightarrow> Exn e | Inr p \<Rightarrow> Ret p,
      \<lparr>self = s, ext = c, trace = t @ [Call_read_gatt_char u]\<rparr>)"
  by (simp add: read_gatt_char_def ext_call_def device_def split: sum.splits)

lemma device_callback [simp]:
  "callback (device up chars) \<lparr>self = s, ext = c, trace = t\<rparr> =
     (Ret (), \<lparr>self = s, ext = c, trace = t @ [Update_callback]\<rparr>)"
  by (simp add: callback_def ext_call_def device_def)

lemma use_metric_init [simp]: "use_metric (init mac metric) = metric"
  by (simp add: init_def)

lemma float_100: "py_float (from_bytes_little [0x64, 0x00]) = Inr (Finite 100)"
  by code_simp

lemma float_58: "py_float (from_bytes_little [0x3A, 0x00]) = Inr (Finite 58)"
  by code_simp

lemma float_57: "py_float (from_bytes_little [0x39, 0x00]) = Inr (Finite 57)"
  by code_simp

lemma centi_100: "py_round_2 (fl (\<lambda>q. q * float_0_01) (Finite 100)) = Finite 1"
  by code_simp

lemma centi_58:
  "py_round_2 (fl (\<lambda>q. q * float_0_01) (Finite 58)) = Finite (5224175567749775 / 9007199254740992)"
  by code_simp

lemma centi_57:
  "py_round_2 (fl (\<lambda>q. q * float_0_01) (Finite 57)) = Finite (5134103575202365 / 9007199254740992)"
  by code_simp

lemma battery_80: "py_float 80 = Inr (Finite 80)"
  "py_round_2 (Finite 80) = Finite 80"
  by code_simp+

lemma temp_100 [simp]: "use_metric m \<Longrightarrow> temp_from_bytes m [0x64, 0x00] = Inr (Finite 1)"
  by (simp add: temp_from_bytes_def float_100 centi_100)

lemma temp_58 [simp]:
  "use_metric m \<Longrightarrow>
   temp_from_bytes m [0x3A, 0x00] = Inr (Finite (5224175567749775 / 9007199254740992))"
  by (simp add: temp_from_bytes_def float_58 centi_58)

lemma temp_57 [simp]:
  "use_metric m \<Longrightarrow>
   temp_from_bytes m [0x39, 0x00] = Inr (Finite (5134103575202365 / 9007199254740992))"
  by (simp add: temp_from_bytes_def float_57 centi_57)

lemma poll_ok:
  "update_all fuel (device True chars_ok) \<lparr>self = init mac True, ext = c, trace = t\<rparr> =
     (Ret True,
      \<lparr>self = (init mac True)\<lparr>led_colour_rgb := [255, 0, 128], current_temp := Some (Finite 1),
                target_temp := Some (Finite (5224175567749775 / 9007199254740992)),
                battery := Some (Finite 80)\<rparr>,
       ext = c,
       trace = t @ [Call_is_connected, Call_read_gatt_char LED_COLOUR_UUID,
                Call_read_gatt_char CURRENT_TEMP_UUID, Log Debug Current_temp_is,
                Call_read_gatt_char TARGET_TEMP_UUID, Log Debug Target_temp_is,
                Call_read_gatt_char BATTERY_UUID, Log Debug Battery_is_at]\<rparr>)"
  by (simp add: update_all_def update_attrs_def update_defs chars_ok_def battery_80
      andthen_def ret_def raise_def of_sum_def emit_def logger_def modify_def except_BleakError_def)

lemma poll_target_fails:
  "update_all fuel (device True chars_target_fails) \<lparr>self = init mac True, ext = c, trace = t\<rparr> =
     (Ret False,
      \<lparr>self = (init mac True)\<lparr>led_colour_rgb := [255, 0, 128], current_temp := Some (Finite 1)\<rparr>,
       ext = c,
       trace = t @ [Call_is_connected, Call_read_gatt_char LED_COLOUR_UUID,
                Call_read_gatt_char CURRENT_TEMP_UUID, Log Debug Current_temp_is,
                Call_read_gatt_char TARGET_TEMP_UUID, Log Error (Error_str BleakError)]\<rparr>)"
  by (simp add: update_all_def update_attrs_def update_defs chars_ok_def chars_target_fails_def
      andthen_def ret_def raise_def of_sum_def emit_def logger_def modify_def except_BleakError_def)

section \<open>The attribute available\<close>

text \<open>
  A poll cycle against a connected, healthy mug, started from the freshly constructed
  object, reads all four characteristics and returns \<open>True\<close>; \<open>available\<close> is still
  \<open>False\<close> after it.
\<close>

theorem available_false_after_poll:
  "update_all 0 (device True chars_ok) (init_world ''aa:bb'' True []) =
     (Ret True,
      \<lparr>self = (init ''aa:bb'' True)\<lparr>led_colour_rgb := [255, 0, 128],
                current_temp := Some (Finite 1),
                target_temp := Some (Finite (5224175567749775 / 9007199254740992)),
                battery := Some (Finite 80)\<rparr>,
       ext = [],
       trace = [Create_task_async_run, Call_is_connected, Call_read_gatt_char LED_COLOUR_UUID,
                Call_read_gatt_char CURRENT_TEMP_UUID, Log Debug Current_temp_is,
                Call_read_gatt_char TARGET_TEMP_UUID, Log Debug Target_temp_is,
                Call_read_gatt_char BATTERY_UUID, Log Debug Battery_is_at]\<rparr>)
   \<and> available (self (snd (update_all 0 (device True chars_ok) (init_world ''aa:bb'' True []))))
       = False"
  by (simp add: init_world_def poll_ok) (simp add: init_def)

text \<open>
  C6, as the code has it. \<open>available\<close> is \<open>False\<close> at construction, and no operation
  changes it: not \<^verbatim>\<open>connect\<close>, \<^verbatim>\<open>update_all\<close>, \<^verbatim>\<open>async_run\<close>, \<^verbatim>\<open>state_notify\<close>,
  \<^verbatim>\<open>disconnect\<close> nor \<^verbatim>\<open>set_target_temp\<close>, whatever the client does. The only line of the
  source that would assign it, in \<^verbatim>\<open>connect\<close>, is commented out.
\<close>

theorem available_never_set:
  "available (init mac metric) = False
   \<and> available (self (snd (connect fuel env w))) = available (self w)
   \<and> available (self (snd (update_all fuel env w))) = available (self w)
   \<and> available (self (snd (async_run n fuel env w))) = available (self w)
   \<and> available (self (snd (state_notify sender data w))) = available (self w)
   \<and> available (self (snd (disconnect env w))) = available (self w)
   \<and> available (self (snd (set_target_temp env temp w))) = available (self w)"
  by (simp add: steady_available init_def)


lemma device_dwell [simp]:
  "dwell (device up chars) k \<lparr>self = s, ext = c, trace = t\<rparr> =
     (Ret (), \<lparr>self = s, ext = c,
               trace = t @ concat (replicate k [Call_is_connected, Await_sleep 2])\<rparr>)"
  by (induction k arbitrary: t) (simp_all add: andthen_def emit_def ret_def)

section \<open>The observer callback\<close>

text \<open>
  A notification that changes the stored status from 3 to 5 leaves one log record in the
  trace and no call of the callback. One pass of the session loop whose poll cycle fails at
  the read of the target temperature calls the callback right after the error log of the
  poll cycle.
\<close>

theorem callback_counterexample:
  "state_notify 0 [5] \<lparr>self = (init ''aa:bb'' True)\<lparr>state := Some 3\<rparr>, ext = [], trace = []\<rparr> =
     (Ret (), \<lparr>self = (init ''aa:bb'' True)\<lparr>state := Some 5\<rparr>, ext = [],
               trace = [Log Info (State_changed (Some 3) 5)]\<rparr>)
   \<and> iteration 0 (device True chars_target_fails) (world0 []) =
     (Ret (),
      \<lparr>self = (init ''aa:bb'' True)\<lparr>led_colour_rgb := [255, 0, 128],
                                      current_temp := Some (Finite 1)\<rparr>,
       ext = [],
       trace = [Call_is_connected, Call_is_connected, Call_read_gatt_char LED_COLOUR_UUID,
                Call_read_gatt_char CURRENT_TEMP_UUID, Log Debug Current_temp_is,
                Call_read_gatt_char TARGET_TEMP_UUID, Log Error (Error_str BleakError),
                Update_callback]
               @ concat (replicate 15 [Call_is_connected, Await_sleep 2])\<rparr>)"
  by (simp add: state_notify_def Let_def iteration_def world0_def poll_target_fails
      andthen_def ret_def emit_def logger_def modify_def)

text \<open>
  C5, as the code has it. In a pass of the session loop, once the connection check has
  returned and the poll cycle has returned, with \<open>True\<close> or with \<open>False\<close>, the next thing
  that happens is the call of the callback: \<^verbatim>\<open>async_run\<close> does not look at the result of
  \<^verbatim>\<open>update_all\<close>. The notification handler never calls the callback, whether it stores a
  new status or not.
\<close>

theorem callback_after_every_poll:
  assumes conn: "andthen (is_connected env) (\<lambda>c. if \<not> c then connect fuel env else ret ()) w
                 = (Ret (), w1)"
    and poll: "update_all fuel env w1 = (Ret success, w2)"
  shows "(\<exists>r w3 es. iteration fuel env w = (r, w3) \<and> trace w3 = trace w2 @ Update_callback # es)
         \<and> filter (\<lambda>e. e = Update_callback) (trace (snd (state_notify sender data w')))
             = filter (\<lambda>e. e = Update_callback) (trace w')"
proof
  let ?K = "\<lambda>_::unit. andthen (update_all fuel env)
              (\<lambda>_. andthen (callback env) (\<lambda>_. dwell env 15))"
  have "iteration fuel env w =
        andthen (andthen (is_connected env) (\<lambda>c. if \<not> c then connect fuel env else ret ())) ?K w"
    by (simp add: iteration_def andthen_assoc)
  also have "\<dots> = ?K () w1"
    using conn by (rule andthen_Ret)
  also have "\<dots> = andthen (callback env) (\<lambda>_. dwell env 15) w2"
    using poll by (rule andthen_Ret)
  finally have it: "iteration fuel env w = andthen (callback env) (\<lambda>_. dwell env 15) w2" .
  obtain rc wc where cb: "callback env w2 = (rc, wc)" by (cases "callback env w2")
  then have tc: "trace wc = trace w2 @ [Update_callback]"
    by (auto simp: callback_def ext_call_def split: prod.splits sum.splits)
  show "\<exists>r w3 es. iteration fuel env w = (r, w3) \<and> trace w3 = trace w2 @ Update_callback # es"
  proof (cases rc)
    case (Ret u)
    obtain rd wd where d: "dwell env 15 wc = (rd, wd)" by (cases "dwell env 15 wc")
    from steady_trace [OF steady_dwell d] obtain es where "trace wd = trace wc @ es" ..
    with it cb Ret d tc show ?thesis by (simp add: andthen_def)
  qed (use it cb tc in \<open>simp_all add: andthen_def\<close>)
next
  show "filter (\<lambda>e. e = Update_callback) (trace (snd (state_notify sender data w')))
        = filter (\<lambda>e. e = Update_callback) (trace w')"
    by (cases data) (simp_all add: state_notify_def Let_def coro_defs)
qed

theorem callback_after_every_poll_witness:
  "\<exists>r w3 es. iteration 0 (device True chars_target_fails) (world0 []) = (r, w3)
     \<and> trace w3 = [Call_is_connected, Call_is_connected, Call_read_gatt_char LED_COLOUR_UUID,
                Call_read_gatt_char CURRENT_TEMP_UUID, Log Debug Current_temp_is,
                Call_read_gatt_char TARGET_TEMP_UUID, Log Error (Error_str BleakError)]
                @ Update_callback # es"
proof -
  let ?env = "device True chars_target_fails"
  let ?w1 = "\<lparr>self = init ''aa:bb'' True, ext = [], trace = [Call_is_connected]\<rparr>"
  let ?w2 = "\<lparr>self = (init ''aa:bb'' True)\<lparr>led_colour_rgb := [255, 0, 128],
                                      current_temp := Some (Finite 1)\<rparr>, ext = [],
         trace = [Call_is_connected, Call_is_connected, Call_read_gatt_char LED_COLOUR_UUID,
                Call_read_gatt_char CURRENT_TEMP_UUID, Log Debug Current_temp_is,
                Call_read_gatt_char TARGET_TEMP_UUID, Log Error (Error_str BleakError)]\<rparr>"
  have 1: "andthen (is_connected ?env) (\<lambda>c. if \<not> c then connect 0 ?env else ret ()) (world0 [])
           = (Ret (), ?w1)"
    by (simp add: world0_def andthen_def ret_def)
  have 2: "update_all 0 ?env ?w1 = (Ret False, ?w2)"
    by (simp add: poll_target_fails)
  show ?thesis
    using conjunct1 [OF callback_after_every_poll [OF 1 2]] by simp
qed

section \<open>The session loop\<close>

lemma iteration_starts:
  "\<exists>r w' es. iteration fuel env w = (r, w') \<and> trace w' = trace w @ Call_is_connected # es"
proof -
  let ?K = "\<lambda>c. andthen (if \<not> c then connect fuel env else ret ()) (\<lambda>_.
              andthen (update_all fuel env) (\<lambda>_. andthen (callback env) (\<lambda>_. dwell env 15)))"
  have K: "steady (?K c)" for c
    by (intro steady_andthen steady_if) simp_all
  obtain r0 w0 where c: "is_connected env w = (r0, w0)" by (cases "is_connected env w")
  then have t0: "trace w0 = trace w @ [Call_is_connected]"
    by (auto simp: is_connected_def ext_call_def split: prod.splits sum.splits)
  have it: "iteration fuel env w = andthen (is_connected env) ?K w"
    by (simp add: iteration_def)
  show ?thesis
  proof (cases r0)
    case (Ret b)
    obtain r w' where k: "?K b w0 = (r, w')" by (cases "?K b w0")
    from steady_trace [OF K k] obtain es where "trace w' = trace w0 @ es" ..
    with it c Ret k t0 show ?thesis by (simp add: andthen_def)
  qed (use it c t0 in \<open>simp_all add: andthen_def\<close>)
qed

lemma async_run_not_Exn: "fst (async_run n fuel env w) \<noteq> Exn e"
  by (simp add: async_run_def except_Exception_def andthen_def emit_def logger_def
      split: prod.splits res.splits)

lemma async_run_starts:
  "\<exists>r w' es. async_run (Suc m) fuel env w = (r, w') \<and> (\<forall>e. r \<noteq> Exn e)
     \<and> trace w' = trace w @ Log Info Starting_mug_loop # Call_is_connected # es"
proof -
  let ?ws = "w\<lparr>self := (self w)\<lparr>loop := True\<rparr>, trace := trace w @ [Log Info Starting_mug_loop]\<rparr>"
  obtain r w' where a: "async_run (Suc m) fuel env w = (r, w')"
    by (cases "async_run (Suc m) fuel env w")
  have nr: "\<forall>e. r \<noteq> Exn e"
    using async_run_not_Exn [of "Suc m" fuel env w] a by simp
  obtain r1 w1 where l: "while_loop (Suc m) fuel env ?ws = (r1, w1)"
    by (cases "while_loop (Suc m) fuel env ?ws")
  obtain ri wi esi where i: "iteration fuel env ?ws = (ri, wi)"
    and ti: "trace wi = trace ?ws @ Call_is_connected # esi"
    using iteration_starts by blast
  have "\<exists>es. trace w1 = trace ?ws @ Call_is_connected # es"
  proof (cases ri)
    case (Ret u)
    with l i have "while_loop m fuel env wi = (r1, w1)" by (simp add: andthen_def)
    from steady_trace [OF steady_while_loop this] ti show ?thesis by auto
  qed (use l i ti in \<open>auto simp: andthen_def\<close>)
  then obtain es1 where t1: "trace w1 = trace ?ws @ Call_is_connected # es1" ..
  have "\<exists>es. trace w' = trace w1 @ es"
    using a l by (cases r1) (auto simp: async_run_def except_Exception_def andthen_def
        emit_def logger_def modify_def)
  with t1 a nr show ?thesis by auto
qed

text \<open>
  C4. Let an exception \<open>e\<close> escape the loop that \<^verbatim>\<open>async_run\<close> started (from the
  connection check, from \<^verbatim>\<open>connect\<close>, from the poll cycle, from the callback or from the
  dwell). Then \<^verbatim>\<open>async_run\<close> does not raise: it returns, its last two events being the
  error log and the creation of a new \<^verbatim>\<open>async_run\<close> task, and the attributes are those at
  the point of failure. The new task, run from there with any fuel, does not raise either,
  and it starts with the start log and the connection check of a new pass of the loop.
\<close>

theorem async_run_restarts:
  assumes "while_loop n fuel env
             (w\<lparr>self := (self w)\<lparr>loop := True\<rparr>, trace := trace w @ [Log Info Starting_mug_loop]\<rparr>)
           = (Exn e, w1)"
  shows "async_run n fuel env w =
           (Ret (), \<lparr>self = self w1, ext = ext w1,
                     trace = trace w1 @ [Log Error (Unexpected_error_restarting e),
                                         Create_task_async_run]\<rparr>)
         \<and> (\<exists>r w2 es.
               async_run (Suc m) fuel' env
                 \<lparr>self = self w1, ext = ext w1,
                  trace = trace w1 @ [Log Error (Unexpected_error_restarting e),
                                      Create_task_async_run]\<rparr> = (r, w2)
               \<and> (\<forall>e'. r \<noteq> Exn e')
               \<and> trace w2 = trace w1 @ [Log Error (Unexpected_error_restarting e),
                    Create_task_async_run, Log Info Starting_mug_loop, Call_is_connected] @ es)"
proof
  show "async_run n fuel env w =
           (Ret (), \<lparr>self = self w1, ext = ext w1,
                     trace = trace w1 @ [Log Error (Unexpected_error_restarting e),
                                         Create_task_async_run]\<rparr>)"
    using assms
    by (simp add: async_run_def except_Exception_def andthen_def emit_def logger_def modify_def)
next
  let ?w' = "\<lparr>self = self w1, ext = ext w1,
              trace = trace w1 @ [Log Error (Unexpected_error_restarting e),
                                  Create_task_async_run]\<rparr>"
  from async_run_starts [of m fuel' env ?w'] obtain r w2 es where
    "async_run (Suc m) fuel' env ?w' = (r, w2)" "\<forall>e'. r \<noteq> Exn e'"
    "trace w2 = trace ?w' @ Log Info Starting_mug_loop # Call_is_connected # es"
    by blast
  then show "\<exists>r w2 es.
               async_run (Suc m) fuel' env ?w' = (r, w2)
               \<and> (\<forall>e'. r \<noteq> Exn e')
               \<and> trace w2 = trace w1 @ [Log Error (Unexpected_error_restarting e),
                    Create_task_async_run, Log Info Starting_mug_loop, Call_is_connected] @ es"
    by simp
qed


lemma poll_rgb:
  "update_all fuel (device True chars_rgb) \<lparr>self = s, ext = c, trace = t\<rparr> =
     (Exn ValueError,
      \<lparr>self = s, ext = c,
       trace = t @ [Call_is_connected, Call_read_gatt_char LED_COLOUR_UUID]\<rparr>)"
  by (simp add: update_all_def update_attrs_def update_defs chars_rgb_def
      andthen_def ret_def raise_def except_BleakError_def)

theorem async_run_restarts_witness:
  "async_run (Suc 0) 0 (device True chars_rgb) (world0 []) =
     (Ret (),
      \<lparr>self = (init ''aa:bb'' True)\<lparr>loop := True\<rparr>, ext = [],
       trace = [Log Info Starting_mug_loop, Call_is_connected, Call_is_connected,
                Call_read_gatt_char LED_COLOUR_UUID,
                Log Error (Unexpected_error_restarting ValueError), Create_task_async_run]\<rparr>)"
proof -
  have 1: "while_loop (Suc 0) 0 (device True chars_rgb)
             ((world0 [])\<lparr>self := (self (world0 []))\<lparr>loop := True\<rparr>,
                          trace := trace (world0 []) @ [Log Info Starting_mug_loop]\<rparr>)
           = (Exn ValueError,
              \<lparr>self = (init ''aa:bb'' True)\<lparr>loop := True\<rparr>, ext = [],
               trace = [Log Info Starting_mug_loop, Call_is_connected, Call_is_connected,
                        Call_read_gatt_char LED_COLOUR_UUID]\<rparr>)"
    by (simp add: world0_def iteration_def poll_rgb andthen_def ret_def)
  show ?thesis
    using conjunct1 [OF async_run_restarts [OF 1]] by simp
qed

section \<open>The LED colour\<close>

lemma hex_digits_byte:
  "n < 256 \<Longrightarrow> hex_digits n =
     (if n < 16 then [hex_digit n] else [hex_digit (n div 16), hex_digit (n mod 16)])"
  by (subst hex_digits.simps, subst hex_digits.simps) auto

lemma hex_digit_0: "hex_digit 0 = CHR ''0''"
  by (simp add: hex_digit_def)

lemma format_02x_byte:
  "format_02x (uint (x :: byte)) = [hex_digit (unat x div 16), hex_digit (unat x mod 16)]"
proof -
  have "unat x < 2 ^ LENGTH(8)" by (rule unsigned_less)
  then have "unat x < 256" by simp
  moreover have "nat (uint x) = unat x" by simp
  ultimately show ?thesis
    by (simp add: format_02x_def hex_digits_byte Let_def hex_digit_0)
qed

lemma hex_digit_lower: "d < 16 \<Longrightarrow> hex_digit d \<in> set ''0123456789abcdef''"
  unfolding hex_digit_def by (rule nth_mem) simp

lemma format_02x_examples:
  "format_02x 255 = ''ff''" "format_02x 0 = ''00''" "format_02x 128 = ''80''"
  by code_simp+

text \<open>
  A colour payload of exactly three bytes, ff 00 80, does not give the colour
  (255, 0, 128): the unpacking raises ValueError and the colour is not stored.
\<close>

theorem led_colour_counterexample:
  "update_led_colour (device True chars_rgb) (world0 []) =
     (Exn ValueError,
      \<lparr>self = init ''aa:bb'' True, ext = [], trace = [Call_read_gatt_char LED_COLOUR_UUID]\<rparr>)
   \<and> chars_rgb LED_COLOUR_UUID = Inr [0xFF, 0x00, 0x80]"
  by (simp add: update_led_colour_def world0_def chars_rgb_def andthen_def raise_def)

text \<open>
  C9, as the code has it. When the read of the colour characteristic returns a payload,
  \<^verbatim>\<open>update_led_colour\<close> stores the first three bytes as \<open>[r, g, b]\<close> and ignores the
  fourth exactly when the payload has four bytes; a payload of any other length, shorter
  or longer, raises ValueError and leaves the stored colour as it was. The property
  \<^verbatim>\<open>colour\<close> of a stored triple of bytes is \<open>#\<close> followed by two hexadecimal digits for
  each byte, zero-padded, each digit one of \<open>0123456789abcdef\<close>; for (255, 0, 128) it is
  \<open>#ff0080\<close>.
\<close>

theorem update_led_colour_four_bytes:
  assumes "client_read_gatt_char env LED_COLOUR_UUID (ext w) = (Inr payload, c')"
  shows "update_led_colour env w =
           (if length payload = 4
            then (Ret (), \<lparr>self = (self w)\<lparr>led_colour_rgb := map uint (take 3 payload)\<rparr>,
                           ext = c', trace = trace w @ [Call_read_gatt_char LED_COLOUR_UUID]\<rparr>)
            else (Exn ValueError,
                  \<lparr>self = self w, ext = c',
                   trace = trace w @ [Call_read_gatt_char LED_COLOUR_UUID]\<rparr>))
         \<and> colour (m\<lparr>led_colour_rgb := [uint (r :: byte), uint (g :: byte), uint (b :: byte)]\<rparr>) =
             Inr [CHR ''#'', hex_digit (unat r div 16), hex_digit (unat r mod 16),
                  hex_digit (unat g div 16), hex_digit (unat g mod 16),
                  hex_digit (unat b div 16), hex_digit (unat b mod 16)]
         \<and> hex_digit (unat r div 16) \<in> set ''0123456789abcdef''
         \<and> hex_digit (unat r mod 16) \<in> set ''0123456789abcdef''
         \<and> colour (m\<lparr>led_colour_rgb := [255, 0, 128]\<rparr>) = Inr ''#ff0080''"
proof (intro conjI)
  show "update_led_colour env w =
           (if length payload = 4
            then (Ret (), \<lparr>self = (self w)\<lparr>led_colour_rgb := map uint (take 3 payload)\<rparr>,
                           ext = c', trace = trace w @ [Call_read_gatt_char LED_COLOUR_UUID]\<rparr>)
            else (Exn ValueError,
                  \<lparr>self = self w, ext = c',
                   trace = trace w @ [Call_read_gatt_char LED_COLOUR_UUID]\<rparr>))"
    using assms
    by (simp add: update_led_colour_def read_gatt_char_def ext_call_def andthen_def
        modify_def raise_def split: list.splits)
  show "colour (m\<lparr>led_colour_rgb := [uint r, uint g, uint b]\<rparr>) =
             Inr [CHR ''#'', hex_digit (unat r div 16), hex_digit (unat r mod 16),
                  hex_digit (unat g div 16), hex_digit (unat g mod 16),
                  hex_digit (unat b div 16), hex_digit (unat b mod 16)]"
    by (simp add: colour_def format_02x_byte)
  have "unat r < 2 ^ LENGTH(8)" by (rule unsigned_less)
  then have "unat r < 256" by simp
  then have "unat r div 16 < 16" by simp
  then show "hex_digit (unat r div 16) \<in> set ''0123456789abcdef''"
    by (rule hex_digit_lower)
  show "hex_digit (unat r mod 16) \<in> set ''0123456789abcdef''"
    by (rule hex_digit_lower) simp
  show "colour (m\<lparr>led_colour_rgb := [255, 0, 128]\<rparr>) = Inr ''#ff0080''"
    by (simp add: colour_def format_02x_examples)
qed

theorem update_led_colour_four_bytes_witness:
  "update_led_colour (device True chars_ok) (world0 []) =
     (Ret (), \<lparr>self = (init ''aa:bb'' True)\<lparr>led_colour_rgb := [255, 0, 128]\<rparr>, ext = [],
               trace = [Call_read_gatt_char LED_COLOUR_UUID]\<rparr>)"
proof -
  have 1: "client_read_gatt_char (device True chars_ok) LED_COLOUR_UUID (ext (world0 []))
           = (Inr [0xFF, 0x00, 0x80, 0x00], [])"
    by (simp add: device_def chars_ok_def world0_def)
  show ?thesis
    using conjunct1 [OF update_led_colour_four_bytes [OF 1]] by (simp add: world0_def)
qed


section \<open>The ten attempts of connect\<close>









section \<open>Encoding the target temperature\<close>

lemma target_58:
  "target_of_temp (Finite (5224175567749775 / 9007199254740992)) = Inr [0x39, 0x00]"
  by code_simp

text \<open>
  C7, at the payload 3a 00 (raw value 58). Decoding gives the float 0.58; encoding that
  float truncates 0.58 / 0.01 = 57.99999999999999 to the raw value 57, bytes 39 00; decoding
  those gives the float 0.57. The two decoded floats differ by more than 1/100, and by more
  than the float 0.01.
\<close>

theorem round_trip_58:
  "temp_from_bytes (init ''aa:bb'' True) [0x3A, 0x00]
     = Inr (Finite (5224175567749775 / 9007199254740992))
   \<and> target_of_temp (Finite (5224175567749775 / 9007199254740992)) = Inr [0x39, 0x00]
   \<and> temp_from_bytes (init ''aa:bb'' True) [0x39, 0x00]
     = Inr (Finite (5134103575202365 / 9007199254740992))
   \<and> (1 / 100 :: rat) < 5224175567749775 / 9007199254740992 - 5134103575202365 / 9007199254740992
   \<and> float_0_01 < 5224175567749775 / 9007199254740992 - 5134103575202365 / 9007199254740992"
  by (simp add: target_58 float_0_01_def)

lemma float_0_29: "rd (29 / 100) = Finite (5224175567749775 / 18014398509481984)"
  by code_simp

lemma quotient_0_29:
  "fl (\<lambda>q. q / float_0_01) (Finite (5224175567749775 / 18014398509481984))
     = Finite (8162774324609023 / 281474976710656)"
  by code_simp

lemma round_quotient_0_29: "round_half_even (8162774324609023 / 281474976710656) = 29"
  by code_simp

lemma target_0_29:
  "target_of_temp (Finite (5224175567749775 / 18014398509481984)) = Inr [0x1C, 0x00]"
  by code_simp

lemma quotient_top:
  "fl (\<lambda>q. q / float_0_01) (Finite (41943 / 64)) = Finite (1048575 / 16)"
  "round_half_even (1048575 / 16) = 65536"
  "target_of_temp (Finite (41943 / 64)) = Inr [0xFF, 0xFF]"
  by code_simp+

lemma to_bytes_2_little_inverse:
  assumes "to_bytes_2_little n = Inr bs"
  shows "from_bytes_little bs = n \<and> length bs = 2"
proof -
  from assms have n: "0 \<le> n" "n < 65536"
    and bs: "bs = [word_of_int (n mod 256), word_of_int (n div 256)]"
    by (auto simp: to_bytes_2_little_def split: if_splits)
  have "uint (word_of_int (n mod 256) :: byte) = n mod 256"
    by (simp add: uint_word_of_int_eq take_bit_eq_mod)
  moreover have "uint (word_of_int (n div 256) :: byte) = n div 256"
    using n by (simp add: uint_word_of_int_eq take_bit_eq_mod)
  ultimately show ?thesis
    by (simp add: bs from_bytes_little_def)
qed

text \<open>
  C8, at the float 0.29 and at the float 655.359375. The quotient 0.29 / 0.01 is the float
  28.999999999999996, which rounds to 29 and which \<^verbatim>\<open>int\<close> truncates to 28: the bytes
  written are 1c 00. The quotient 655.359375 / 0.01 is 65535.9375, which rounds to 65536,
  a value that does not fit in 16 bits, and which \<^verbatim>\<open>int\<close> truncates to 65535: no error
  is raised and the bytes written are ff ff.
\<close>

theorem target_of_temp_truncates:
  "rd (29 / 100) = Finite (5224175567749775 / 18014398509481984)
   \<and> fl (\<lambda>q. q / float_0_01) (Finite (5224175567749775 / 18014398509481984))
       = Finite (8162774324609023 / 281474976710656)
   \<and> round_half_even (8162774324609023 / 281474976710656) = 29
   \<and> target_of_temp (Finite (5224175567749775 / 18014398509481984)) = Inr [0x1C, 0x00]
   \<and> fl (\<lambda>q. q / float_0_01) (Finite (41943 / 64)) = Finite (1048575 / 16)
   \<and> round_half_even (1048575 / 16) = 65536
   \<and> target_of_temp (Finite (41943 / 64)) = Inr [0xFF, 0xFF]"
  by (simp only: float_0_29 quotient_0_29 round_quotient_0_29 target_0_29 quotient_top simp_thms)

end
